theory Spec2Isabelle
  imports Main
begin

section \<open>JavaScript values, paths and issues\<close>

text \<open>
  The value universe of the embedding: the JSON-like data a schema is applied to, plus
  File objects (only their name is kept). Numbers are modelled by integers and a separate
  NaN. Arrays are lists (a hole of a sparse array reads as undefined, which is what the
  spread in parseInput turns it into); a plain object is its list of entries in
  enumeration order, with distinct keys. Functions, symbols and class instances other
  than File are outside this universe, and so are properties inherited from
  Object.prototype.
\<close>

datatype jsval =
    JUndefined
  | JNull
  | JBool bool
  | JNum int
  | JNaN
  | JStr string
  | JFile string
  | JArr "jsval list"
  | JObj "(string \<times> jsval) list"

text \<open>issue.ts: Path = (string | number)[].\<close>

datatype key = KStr string | KNum int

type_synonym path = "key list"

text \<open>
  issue.ts: Issue = {path, code, message}. The context keeps issues in a Set, which
  compares objects by identity; ident is the identity of the object (allocated from a
  counter of the context when the object is created).
\<close>

record issue =
  ident :: nat
  path :: path
  code :: string
  message :: string

text \<open>What can be thrown: context.ts ContextKeyError, a plain Error, the engine's TypeError,
  and base.ts ParseError with its issues.\<close>

datatype jserror =
    ContextKeyError string
  | Error string
  | TypeError string
  | ParseError "issue list"

text \<open>util.ts: isObject; and Array.isArray, value == null.\<close>

fun isObject :: "jsval \<Rightarrow> bool" where
  "isObject (JObj kvs) = True"
| "isObject v = False"

fun isArray :: "jsval \<Rightarrow> bool" where
  "isArray (JArr xs) = True"
| "isArray v = False"

fun isNullish :: "jsval \<Rightarrow> bool" where
  "isNullish JUndefined = True"
| "isNullish JNull = True"
| "isNullish v = False"

text \<open>typeof v === "object" (true of null, arrays, plain objects and File objects).\<close>

fun typeof_object :: "jsval \<Rightarrow> bool" where
  "typeof_object JNull = True"
| "typeof_object (JArr xs) = True"
| "typeof_object (JObj kvs) = True"
| "typeof_object (JFile n) = True"
| "typeof_object v = False"

subsection \<open>Strings: trim, decimal numerals, parseInt, join\<close>

definition is_ws :: "char \<Rightarrow> bool" where
  "is_ws c = (c \<in> set [CHR 0x09, CHR 0x0A, CHR 0x0B, CHR 0x0C, CHR 0x0D, CHR 0x20, CHR 0xA0])"

definition js_trim :: "string \<Rightarrow> string" where
  "js_trim s = rev (dropWhile is_ws (rev (dropWhile is_ws s)))"

fun show_nat :: "nat \<Rightarrow> string" where
  "show_nat n =
     (if n < 10 then [char_of (48 + n)] else show_nat (n div 10) @ [char_of (48 + n mod 10)])"

declare show_nat.simps [simp del]

definition show_int :: "int \<Rightarrow> string" where
  "show_int i = (if i < 0 then CHR ''-'' # show_nat (nat (- i)) else show_nat (nat i))"

definition digit_val :: "nat \<Rightarrow> char \<Rightarrow> nat option" where
  "digit_val radix c =
     (let n = (of_char c :: nat);
          d = (if 48 \<le> n \<and> n \<le> 57 then Some (n - 48)
               else if 97 \<le> n \<and> n \<le> 122 then Some (n - 87)
               else if 65 \<le> n \<and> n \<le> 90 then Some (n - 55)
               else None)
      in case d of None \<Rightarrow> None | Some v \<Rightarrow> if v < radix then Some v else None)"

text \<open>The longest prefix of digits of the radix, read as a number; None when it is empty.\<close>

fun read_digits :: "nat \<Rightarrow> nat option \<Rightarrow> string \<Rightarrow> nat option" where
  "read_digits radix acc [] = acc"
| "read_digits radix acc (c # cs) =
     (case digit_val radix c of
        None \<Rightarrow> acc
      | Some d \<Rightarrow> read_digits radix (Some ((case acc of None \<Rightarrow> 0 | Some a \<Rightarrow> a) * radix + d)) cs)"

text \<open>
  Number.parseInt(s) with no radix: leading white space, an optional sign, an optional
  0x prefix, then digits; None stands for NaN.
\<close>

definition js_parseInt :: "string \<Rightarrow> int option" where
  "js_parseInt s =
     (let t = dropWhile is_ws s;
          neg = (t \<noteq> [] \<and> hd t = CHR ''-'');
          u = (if t \<noteq> [] \<and> (hd t = CHR ''-'' \<or> hd t = CHR ''+'') then tl t else t);
          hex = (length u \<ge> 2 \<and> hd u = CHR ''0'' \<and> (u ! 1 = CHR ''x'' \<or> u ! 1 = CHR ''X''));
          r = (if hex then read_digits 16 None (drop 2 u) else read_digits 10 None u)
      in case r of None \<Rightarrow> None | Some n \<Rightarrow> Some (if neg then - int n else int n))"

fun key_string :: "key \<Rightarrow> string" where
  "key_string (KStr s) = s"
| "key_string (KNum n) = show_int n"

fun join :: "string \<Rightarrow> string list \<Rightarrow> string" where
  "join sep [] = []"
| "join sep [x] = x"
| "join sep (x # y # ys) = x @ sep @ join sep (y # ys)"

text \<open>path.join("."), the key of the context's input map and of the proxy cache.\<close>

definition path_key :: "path \<Rightarrow> string" where
  "path_key p = join ''.'' (map key_string p)"

subsection \<open>Property reads and writes\<close>

text \<open>A canonical array index: a decimal numeral with no leading zero.\<close>

definition js_index :: "string \<Rightarrow> nat option" where
  "js_index s =
     (if s \<noteq> [] \<and> (\<forall>c \<in> set s. digit_val 10 c \<noteq> None) \<and> (s = ''0'' \<or> hd s \<noteq> CHR ''0'')
      then read_digits 10 None s else None)"

text \<open>target[prop] on a plain (unwrapped) value; reading a property of null or undefined throws.\<close>

fun js_get :: "jsval \<Rightarrow> string \<Rightarrow> jserror + jsval" where
  "js_get JUndefined prop = Inl (TypeError ''Cannot read properties of undefined'')"
| "js_get JNull prop = Inl (TypeError ''Cannot read properties of null'')"
| "js_get (JObj kvs) prop = Inr (case map_of kvs prop of None \<Rightarrow> JUndefined | Some v \<Rightarrow> v)"
| "js_get (JArr xs) prop =
     Inr (if prop = ''length'' then JNum (int (length xs))
          else case js_index prop of
                 None \<Rightarrow> JUndefined
               | Some i \<Rightarrow> if i < length xs then xs ! i else JUndefined)"
| "js_get (JStr s) prop =
     Inr (if prop = ''length'' then JNum (int (length s))
          else case js_index prop of
                 None \<Rightarrow> JUndefined
               | Some i \<Rightarrow> if i < length s then JStr [s ! i] else JUndefined)"
| "js_get v prop = Inr JUndefined"

text \<open>parent[key] for a key handed out by getChildKeys.\<close>

fun child_at :: "jsval \<Rightarrow> key \<Rightarrow> jsval" where
  "child_at (JObj kvs) (KStr k) = (case map_of kvs k of None \<Rightarrow> JUndefined | Some v \<Rightarrow> v)"
| "child_at (JArr xs) (KNum i) = (if 0 \<le> i \<and> nat i < length xs then xs ! nat i else JUndefined)"
| "child_at v k = JUndefined"

text \<open>obj[k] = v on a plain object: an existing key keeps its place, a new key goes last.\<close>

fun obj_set :: "(string \<times> jsval) list \<Rightarrow> string \<Rightarrow> jsval \<Rightarrow> (string \<times> jsval) list" where
  "obj_set [] k v = [(k, v)]"
| "obj_set ((k', v') # kvs) k v = (if k' = k then (k, v) # kvs else (k', v') # obj_set kvs k v)"

text \<open>parent[key] = child, for a key handed out by getChildKeys (array indices are in range).\<close>

fun set_child :: "jsval \<Rightarrow> key \<Rightarrow> jsval \<Rightarrow> jsval" where
  "set_child (JObj kvs) (KStr k) v = JObj (obj_set kvs k v)"
| "set_child (JArr xs) (KNum i) v = (if 0 \<le> i \<and> nat i < length xs then JArr (xs[nat i := v]) else JArr xs)"
| "set_child p k v = p"

subsection \<open>String(v) and Number(v)\<close>

text \<open>String(v) (also what a template literal does with v).\<close>

fun js_String :: "jsval \<Rightarrow> string" where
  "js_String JUndefined = ''undefined''"
| "js_String JNull = ''null''"
| "js_String (JBool b) = (if b then ''true'' else ''false'')"
| "js_String (JNum n) = show_int n"
| "js_String JNaN = ''NaN''"
| "js_String (JStr s) = s"
| "js_String (JFile n) = ''[object File]''"
| "js_String (JObj kvs) = ''[object Object]''"
| "js_String (JArr xs) = join '','' (map (\<lambda>x. if isNullish x then [] else js_String x) xs)"

text \<open>
  Number(v). A string is read as an integer numeral (decimal or 0x hexadecimal, white
  space trimmed, the empty string being 0). A numeral with a fraction or an exponent
  denotes a number outside the integer universe of this embedding; it is mapped to NaN
  here, which is the one place where the universe is narrower than JavaScript's.
\<close>

definition is_numeral :: "string \<Rightarrow> bool" where
  "is_numeral s =
     (let u = (if s \<noteq> [] \<and> (hd s = CHR ''-'' \<or> hd s = CHR ''+'') then tl s else s)
      in if length s \<ge> 2 \<and> hd s = CHR ''0'' \<and> (s ! 1 = CHR ''x'' \<or> s ! 1 = CHR ''X'')
         then drop 2 s \<noteq> [] \<and> (\<forall>c \<in> set (drop 2 s). digit_val 16 c \<noteq> None)
         else u \<noteq> [] \<and> (\<forall>c \<in> set u. digit_val 10 c \<noteq> None))"

fun js_Number :: "jsval \<Rightarrow> jsval" where
  "js_Number JUndefined = JNaN"
| "js_Number JNull = JNum 0"
| "js_Number (JBool b) = JNum (if b then 1 else 0)"
| "js_Number (JNum n) = JNum n"
| "js_Number JNaN = JNaN"
| "js_Number (JStr s) =
     (let t = js_trim s
      in if t = [] then JNum 0
         else if is_numeral t then (case js_parseInt t of None \<Rightarrow> JNaN | Some n \<Rightarrow> JNum n)
         else JNaN)"
| "js_Number (JFile n) = JNaN"
| "js_Number (JObj kvs) = JNaN"
| "js_Number (JArr xs) =
     (case xs of [] \<Rightarrow> JNum 0 | [x] \<Rightarrow> (if isNullish x then JNum 0 else js_Number x) | _ \<Rightarrow> JNaN)"

text \<open>Boolean(v).\<close>

fun js_Boolean :: "jsval \<Rightarrow> bool" where
  "js_Boolean JUndefined = False"
| "js_Boolean JNull = False"
| "js_Boolean (JBool b) = b"
| "js_Boolean (JNum n) = (n \<noteq> 0)"
| "js_Boolean JNaN = False"
| "js_Boolean (JStr s) = (s \<noteq> [])"
| "js_Boolean v = True"

section \<open>The parse context (context.ts, internal.ts)\<close>

text \<open>
  context.ts: ParseOptions. The three reserved namespaces are flattened into optional
  flags (None when the namespace or the flag is absent); extras holds every other key,
  undefined when absent.
\<close>

record parse_options =
  string_coerce :: "bool option"
  string_trim :: "bool option"
  string_empty :: "bool option"
  number_coerce :: "bool option"
  boolean_coerce :: "bool option"
  extras :: "string \<Rightarrow> jsval"

text \<open>
  An entry of the input map. The source also stores the owning type node; it is never
  read back by the code modelled here and is left out. The entry holds the input as it
  was when setInput ran.
\<close>

record input_entry =
  raw :: jsval
  parsed :: bool

text \<open>
  ParseContextInternal: the options, the current path (_path), the input map keyed by
  the joined path, and the issue set (a Set: insertion-ordered, no object twice).
  next_ident is the embedding's supply of fresh object identities.
\<close>

record ctx =
  options :: parse_options
  cur_path :: path
  inputs :: "string \<Rightarrow> input_entry option"
  issues :: "issue list"
  next_ident :: nat

definition new_context :: "parse_options \<Rightarrow> ctx" where
  "new_context opts =
     \<lparr>options = opts, cur_path = [], inputs = (\<lambda>k. None), issues = [], next_ident = 0\<rparr>"

definition pathHasErrors :: "ctx \<Rightarrow> bool" where
  "pathHasErrors c =
     (case inputs c (path_key (cur_path c)) of None \<Rightarrow> True | Some e \<Rightarrow> \<not> parsed e)"

definition isDefined :: "ctx \<Rightarrow> bool" where
  "isDefined c =
     (case inputs c (path_key (cur_path c)) of None \<Rightarrow> False | Some e \<Rightarrow> \<not> isNullish (raw e))"

definition setPath :: "ctx \<Rightarrow> path \<Rightarrow> ctx" where
  "setPath c p = c\<lparr>cur_path := p\<rparr>"

definition issueCount :: "ctx \<Rightarrow> nat" where
  "issueCount c = length (issues c)"

definition has_issue :: "ctx \<Rightarrow> issue \<Rightarrow> bool" where
  "has_issue c i = (ident i \<in> ident ` set (issues c))"

text \<open>Set.add and Set.delete on the issue set.\<close>

definition set_add :: "issue \<Rightarrow> issue list \<Rightarrow> issue list" where
  "set_add i xs = (if ident i \<in> ident ` set xs then xs else xs @ [i])"

definition set_delete :: "issue \<Rightarrow> issue list \<Rightarrow> issue list" where
  "set_delete i xs = filter (\<lambda>x. ident x \<noteq> ident i) xs"

definition addIssues :: "ctx \<Rightarrow> issue list \<Rightarrow> ctx" where
  "addIssues c new = c\<lparr>issues := foldl (\<lambda>xs i. set_add i xs) (issues c) new\<rparr>"

definition removeIssues :: "ctx \<Rightarrow> issue list \<Rightarrow> ctx" where
  "removeIssues c old = c\<lparr>issues := foldl (\<lambda>xs i. set_delete i xs) (issues c) old\<rparr>"

definition setInput :: "ctx \<Rightarrow> jsval \<Rightarrow> bool \<Rightarrow> ctx" where
  "setInput c input ok =
     c\<lparr>inputs := (inputs c)(path_key (cur_path c) \<mapsto> \<lparr>raw = input, parsed = ok\<rparr>)\<rparr>"

text \<open>
  clone(): a context with its own path, input map and issue set, copied from this one.
  In the embedding a context is a value, so the copy is the value itself; what matters is
  which context the caller goes on with.
\<close>

definition clone :: "ctx \<Rightarrow> ctx" where
  "clone c = c"

text \<open>
  The arguments of ctx.issue, one constructor per overload. A message given as a
  function is modelled by the string it returns. An object argument is either an issue
  object that already has an identity, or an object literal {code, message, path?}.
\<close>

datatype issue_object = Existing issue | Literal string string "path option"

datatype issue_args =
    When bool issue_args
  | Message string "path option"
  | CodeMessage string string "path option"
  | Object issue_object

definition create_issue :: "ctx \<Rightarrow> path option \<Rightarrow> string \<Rightarrow> string \<Rightarrow> issue \<times> ctx" where
  "create_issue c p cd m =
     (let i = \<lparr>ident = next_ident c,
               path = (case p of None \<Rightarrow> cur_path c | Some q \<Rightarrow> q),
               code = cd, message = m\<rparr>
      in (i, c\<lparr>issues := issues c @ [i], next_ident := Suc (next_ident c)\<rparr>))"

definition new_issue :: "ctx \<Rightarrow> path option \<Rightarrow> string \<Rightarrow> string \<Rightarrow> issue option \<times> ctx" where
  "new_issue c p cd m = (case create_issue c p cd m of (i, c1) \<Rightarrow> (Some i, c1))"

fun ctx_issue :: "ctx \<Rightarrow> issue_args \<Rightarrow> issue option \<times> ctx" where
  "ctx_issue c (When b rest) = (if b then ctx_issue c rest else (None, c))"
| "ctx_issue c (Message m p) = new_issue c p ''custom'' m"
| "ctx_issue c (CodeMessage cd m p) = new_issue c p cd m"
| "ctx_issue c (Object (Existing i)) =
     (if has_issue c i then (Some i, c) else new_issue c (Some (path i)) (code i) (message i))"
| "ctx_issue c (Object (Literal cd m p)) = new_issue c p cd m"

text \<open>get(key): the missing-key error is thrown for a null or undefined option.\<close>

definition ctx_get :: "ctx \<Rightarrow> string \<Rightarrow> jserror + jsval" where
  "ctx_get c k =
     (let v = extras (options c) k in if isNullish v then Inl (ContextKeyError k) else Inr v)"

subsection \<open>The registered core issues (issue.ts: CORE_ISSUES, not customised)\<close>

text \<open>Each registered function returns the object {code, message}.\<close>

definition invalid_type :: "string \<Rightarrow> jsval \<Rightarrow> string \<times> string" where
  "invalid_type expected input =
     (''invalid_type'',
      ''Expected: '' @ expected @ '', Received: '' @
        (if isArray input then ''array''
         else if typeof_object input then ''object''
         else js_String input))"

definition required :: "jsval \<Rightarrow> string \<times> string" where
  "required input =
     (''required'', ''Value is required, Received '' @ [CHR 0x27] @ js_String input @ [CHR 0x27])"

fun error_message :: "jserror \<Rightarrow> string" where
  "error_message (ContextKeyError k) = ''Context key missing: '' @ k"
| "error_message (Error m) = m"
| "error_message (TypeError m) = m"
| "error_message (ParseError is) = []"

definition exception :: "jserror \<Rightarrow> string \<times> string" where
  "exception e = (''exception'', ''Exception: '' @ error_message e)"

text \<open>
  ctx.issue(obj) for the object a registered function returns: an object literal with
  no path, so it is never in the set already and the issue gets the current path.
\<close>

definition core_issue :: "ctx \<Rightarrow> string \<times> string \<Rightarrow> issue \<times> ctx" where
  "core_issue c obj = create_issue c None (fst obj) (snd obj)"

section \<open>User callbacks\<close>

text \<open>
  What a callback is handed as its value: inside a refinement, the path-tracking proxy
  of an object or array (the wrapper remembers the path it stands for and its target),
  or a plain value (primitives are never wrapped; the input given to a core-issue
  override is not wrapped either).
\<close>

datatype view = Proxied path jsval | Plain jsval

fun target :: "view \<Rightarrow> jsval" where
  "target (Proxied p v) = v"
| "target (Plain v) = v"

text \<open>
  A callback is a JavaScript function of (ctx, value). It is embedded as the tree of the
  interactions it has with its context and its value: each node is one call of the
  ParseContext interface or one property read, and the continuation receives what the
  call returned. A for ... of loop over a wrapped array is the sequence of index reads
  the proxy's iterator performs. NewObject is an object literal {path, code, message}
  the callback builds itself (for the return-style of raising issues).
\<close>

datatype 'r prog =
    Return 'r
  | Throw jserror
  | CallIssue issue_args "issue option \<Rightarrow> 'r prog"
  | ReadPath "path \<Rightarrow> 'r prog"
  | ReadOptions "parse_options \<Rightarrow> 'r prog"
  | CallPathFor view "path \<Rightarrow> 'r prog"
  | CallIsDefined "bool \<Rightarrow> 'r prog"
  | CallGet string "jsval \<Rightarrow> 'r prog"
  | ReadProp view string "view \<Rightarrow> 'r prog"
  | NewObject path string string "issue \<Rightarrow> 'r prog"

text \<open>
  base.ts: ValidationResult and getIssues. A validator returns one value or an array of
  values; each is an issue object or something else (isIssue decides).
\<close>

datatype result_item = AnIssue issue | NotAnIssue

datatype validation_result = Single result_item | Many "result_item list"

fun getIssues :: "validation_result \<Rightarrow> issue list" where
  "getIssues (Many rs) = concat (map (\<lambda>r. case r of AnIssue i \<Rightarrow> [i] | NotAnIssue \<Rightarrow> []) rs)"
| "getIssues (Single (AnIssue i)) = [i]"
| "getIssues (Single NotAnIssue) = []"

text \<open>base.ts: ValidationResultOverride, a string or a callback returning a string or an issue.\<close>

datatype override_result = AsString string | AsIssue issue

datatype core_override = Text string | Callback "jsval \<Rightarrow> override_result prog"

record core_overrides =
  invalid_type_error :: "core_override option"
  required_error :: "core_override option"

subsection \<open>Running a callback: the proxy handler and the tracking context\<close>

text \<open>
  The state a callback runs against: the parse context, the proxy cache of getProxy
  (path key to wrapper) and the newIssues set of the IssueTrackingContext.
\<close>

record run_state =
  rs_ctx :: ctx
  proxies :: "string \<Rightarrow> view option"
  newIssues :: "issue list"

definition keyOrIndex :: "string \<Rightarrow> key" where
  "keyOrIndex prop = (case js_parseInt prop of Some n \<Rightarrow> KNum n | None \<Rightarrow> KStr prop)"

definition tryGetProxy :: "run_state \<Rightarrow> jsval \<Rightarrow> path \<Rightarrow> view \<times> run_state" where
  "tryGetProxy s v p =
     (if \<not> isObject v \<and> \<not> isArray v then (Plain v, s)
      else case proxies s (path_key p) of
             Some w \<Rightarrow> (w, s)
           | None \<Rightarrow> (Proxied p v, s\<lparr>proxies := (proxies s)(path_key p \<mapsto> Proxied p v)\<rparr>))"

text \<open>
  The get trap of the proxy handler, for a data property (an own property of an object,
  an index or the length of an array). Reads of methods, among them the iterator the
  trap replaces, are outside the embedding; what the replaced iterator does is the index
  reads themselves.
\<close>

definition proxy_get :: "run_state \<Rightarrow> path \<Rightarrow> jsval \<Rightarrow> string \<Rightarrow> jserror + (view \<times> run_state)" where
  "proxy_get s proxyPath tgt prop =
     (case js_get tgt prop of
        Inl e \<Rightarrow> Inl e
      | Inr v \<Rightarrow>
          (let childPath = proxyPath @ [keyOrIndex prop];
               isArrayLength = (isArray tgt \<and> prop = ''length'');
               s1 = s\<lparr>rs_ctx := setPath (rs_ctx s) (if isArrayLength then proxyPath else childPath)\<rparr>
           in Inr (tryGetProxy s1 v childPath)))"

text \<open>pathFor(proxy).\<close>

fun pathFor :: "view \<Rightarrow> jserror + path" where
  "pathFor (Proxied p v) = Inr p"
| "pathFor (Plain JNull) = Inl (TypeError ''Cannot read properties of null'')"
| "pathFor (Plain v) = Inr []"

text \<open>
  Running a callback. Every issue a call of ctx.issue returns is also put into newIssues,
  as the IssueTrackingContext a validator is given does (an undefined result is left out:
  removing it later does nothing); a callback that is given the context itself (an
  override) runs the same way and its newIssues are not looked at.
\<close>

primrec run :: "'r prog \<Rightarrow> run_state \<Rightarrow> (jserror + 'r) \<times> run_state" where
  "run (Return r) s = (Inr r, s)"
| "run (Throw e) s = (Inl e, s)"
| "run (CallIssue a k) s =
     (let (i, c) = ctx_issue (rs_ctx s) a;
          s1 = s\<lparr>rs_ctx := c,
                 newIssues := (case i of None \<Rightarrow> newIssues s | Some x \<Rightarrow> set_add x (newIssues s))\<rparr>
      in run (k i) s1)"
| "run (ReadPath k) s = run (k (cur_path (rs_ctx s))) s"
| "run (ReadOptions k) s = run (k (options (rs_ctx s))) s"
| "run (CallPathFor w k) s =
     (case pathFor w of Inl e \<Rightarrow> (Inl e, s) | Inr p \<Rightarrow> run (k p) s)"
| "run (CallIsDefined k) s = run (k (isDefined (rs_ctx s))) s"
| "run (CallGet name k) s =
     (case ctx_get (rs_ctx s) name of Inl e \<Rightarrow> (Inl e, s) | Inr v \<Rightarrow> run (k v) s)"
| "run (ReadProp w prop k) s =
     (case w of
        Plain v \<Rightarrow> (case js_get v prop of Inl e \<Rightarrow> (Inl e, s) | Inr x \<Rightarrow> run (k (Plain x)) s)
      | Proxied p tgt \<Rightarrow>
          (case proxy_get s p tgt prop of
             Inl e \<Rightarrow> (Inl e, s)
           | Inr (x, s1) \<Rightarrow> run (k x) s1))"
| "run (NewObject p cd m k) s =
     (let c = rs_ctx s;
          i = \<lparr>ident = next_ident c, path = p, code = cd, message = m\<rparr>
      in run (k i) (s\<lparr>rs_ctx := c\<lparr>next_ident := Suc (next_ident c)\<rparr>\<rparr>))"

section \<open>Type nodes (base.ts, types.ts)\<close>

text \<open>An entry of the validators or asyncValidators list of a Type.\<close>

record ventry =
  validator :: "view \<Rightarrow> validation_result prog"
  name :: "string option"
  params :: "jsval list option"
  override :: "(view \<Rightarrow> override_result prog) option"

text \<open>The fields every node has: BaseType's flags and overrides, Type's two lists.\<close>

record common =
  isOptional :: bool
  isNullable :: bool
  overrides :: core_overrides
  validators :: "ventry list"
  asyncValidators :: "ventry list"

record string_config =
  trim :: "bool option"
  empty :: "bool option"
  coerce_flag :: "bool option"

datatype literal = LitStr string | LitNum int | LitBool bool

text \<open>
  The classes of types.ts. An object's properties are its entries in enumeration order.
  A union is kept as its first member and the remaining ones: the constructor (new_UnionType
  below) refuses an empty list, so a union node always has a first member.
\<close>

datatype ty =
    StringType common string_config
  | NumberType common "bool option"
  | BooleanType common "bool option"
  | EnumType common "string list"
  | LiteralType common literal
  | FileType common
  | RecordType common ty
  | ObjectType common "(string \<times> ty) list"
  | ArrayType common ty "bool option"
  | UnionType common ty "ty list"

fun base :: "ty \<Rightarrow> common" where
  "base (StringType c cfg) = c"
| "base (NumberType c co) = c"
| "base (BooleanType c co) = c"
| "base (EnumType c vs) = c"
| "base (LiteralType c l) = c"
| "base (FileType c) = c"
| "base (RecordType c t) = c"
| "base (ObjectType c ps) = c"
| "base (ArrayType c t co) = c"
| "base (UnionType c t ts) = c"

fun with_base :: "ty \<Rightarrow> common \<Rightarrow> ty" where
  "with_base (StringType c cfg) d = StringType d cfg"
| "with_base (NumberType c co) d = NumberType d co"
| "with_base (BooleanType c co) d = BooleanType d co"
| "with_base (EnumType c vs) d = EnumType d vs"
| "with_base (LiteralType c l) d = LiteralType d l"
| "with_base (FileType c) d = FileType d"
| "with_base (RecordType c t) d = RecordType d t"
| "with_base (ObjectType c ps) d = ObjectType d ps"
| "with_base (ArrayType c t co) d = ArrayType d t co"
| "with_base (UnionType c t ts) d = UnionType d t ts"

text \<open>The state of a freshly constructed node.\<close>

definition fresh :: common where
  "fresh = \<lparr>isOptional = False, isNullable = False,
            overrides = \<lparr>invalid_type_error = None, required_error = None\<rparr>,
            validators = [], asyncValidators = []\<rparr>"

text \<open>UnionType's types.\<close>

fun types :: "ty \<Rightarrow> ty list" where
  "types (UnionType c t ts) = t # ts"
| "types u = []"

text \<open>The constructor of UnionType.\<close>

fun new_UnionType :: "ty list \<Rightarrow> jserror + ty" where
  "new_UnionType [] = Inl (Error ''UnionType options cannot be empty'')"
| "new_UnionType (t # ts) = Inr (UnionType fresh t ts)"



definition with_issues :: "ty \<Rightarrow> core_overrides \<Rightarrow> ty" where
  "with_issues t ov = with_base t ((base t)\<lparr>overrides := ov\<rparr>)"

definition plain_entry :: "(view \<Rightarrow> validation_result prog) \<Rightarrow> ventry" where
  "plain_entry v = \<lparr>validator = v, name = None, params = None, override = None\<rparr>"

definition refine :: "ty \<Rightarrow> (view \<Rightarrow> validation_result prog) \<Rightarrow> ty" where
  "refine t v = with_base t ((base t)\<lparr>validators := validators (base t) @ [plain_entry v]\<rparr>)"


text \<open>pukka.ts: the public factory of a union.\<close>

definition z_union :: "ty list \<Rightarrow> core_overrides \<Rightarrow> jserror + ty" where
  "z_union ts ov = (case new_UnionType ts of Inl e \<Rightarrow> Inl e | Inr u \<Rightarrow> Inr (with_issues u ov))"

subsection \<open>Extensions (base.ts: addExtension, getExtensionParams)\<close>

datatype message_override = OverrideText string | OverrideFn "view \<Rightarrow> override_result prog"

fun findIndex :: "('a \<Rightarrow> bool) \<Rightarrow> 'a list \<Rightarrow> nat option" where
  "findIndex P [] = None"
| "findIndex P (x # xs) =
     (if P x then Some 0 else case findIndex P xs of None \<Rightarrow> None | Some i \<Rightarrow> Some (Suc i))"

text \<open>list[index] = entry, where index may be list.length.\<close>

definition assign_at :: "'a list \<Rightarrow> nat \<Rightarrow> 'a \<Rightarrow> 'a list" where
  "assign_at xs i x = (if i < length xs then xs[i := x] else xs @ [x])"

definition named :: "string \<Rightarrow> ventry \<Rightarrow> bool" where
  "named n e = (name e = Some n)"

definition extension_entry ::
  "string \<Rightarrow> jsval list \<Rightarrow> message_override option \<Rightarrow> (view \<Rightarrow> validation_result prog) \<Rightarrow> ventry" where
  "extension_entry n ps ov v =
     \<lparr>validator = v, name = Some n, params = Some ps,
      override = (case ov of
                    None \<Rightarrow> None
                  | Some (OverrideText m) \<Rightarrow> Some (\<lambda>w. Return (AsString m))
                  | Some (OverrideFn f) \<Rightarrow> Some f)\<rparr>"

definition put_entry :: "ventry list \<Rightarrow> string \<Rightarrow> ventry \<Rightarrow> ventry list" where
  "put_entry list n e =
     (let index = (case findIndex (named n) list of None \<Rightarrow> length list | Some i \<Rightarrow> i)
      in assign_at list index e)"

definition addExtension ::
  "ty \<Rightarrow> bool \<Rightarrow> string \<Rightarrow> jsval list \<Rightarrow> message_override option \<Rightarrow>
   (view \<Rightarrow> validation_result prog) \<Rightarrow> ty" where
  "addExtension t isAsync n ps ov v =
     (let c = base t; e = extension_entry n ps ov v
      in if isAsync then with_base t (c\<lparr>asyncValidators := put_entry (asyncValidators c) n e\<rparr>)
         else with_base t (c\<lparr>validators := put_entry (validators c) n e\<rparr>))"


definition extendAsync ::
  "ty \<Rightarrow> string \<Rightarrow> jsval list \<Rightarrow> message_override option \<Rightarrow> (view \<Rightarrow> validation_result prog) \<Rightarrow> ty" where
  "extendAsync t n ps ov v = addExtension t True n ps ov v"






subsection \<open>Per-class members\<close>

fun isLiteral :: "ty \<Rightarrow> bool" where
  "isLiteral (LiteralType c l) = True"
| "isLiteral t = False"

fun literalValue :: "ty \<Rightarrow> jserror + literal" where
  "literalValue (LiteralType c l) = Inr l"
| "literalValue t = Inl (Error ''Not a literal type'')"

fun literal_value :: "literal \<Rightarrow> jsval" where
  "literal_value (LitStr s) = JStr s"
| "literal_value (LitNum n) = JNum n"
| "literal_value (LitBool b) = JBool b"

text \<open>LiteralKey, without the type it also carries (the matching never reads it).\<close>

fun getLiteralKeys :: "ty \<Rightarrow> (string \<times> literal) list" where
  "getLiteralKeys (ObjectType c ps) =
     concat (map (\<lambda>(k, t). if isLiteral t
                            then (case literalValue t of Inr l \<Rightarrow> [(k, l)] | Inl e \<Rightarrow> [])
                            else []) ps)"
| "getLiteralKeys t = []"

fun defaultValue :: "ty \<Rightarrow> jsval" where
  "defaultValue (StringType c cfg) = JStr []"
| "defaultValue (NumberType c co) = JNum 0"
| "defaultValue (BooleanType c co) = JBool False"
| "defaultValue (EnumType c vs) = JStr []"
| "defaultValue (LiteralType c l) = literal_value l"
| "defaultValue (FileType c) = JFile []"
| "defaultValue (RecordType c t) = JObj []"
| "defaultValue (ObjectType c ps) = JObj (map (\<lambda>p. (fst p, defaultValue (snd p))) ps)"
| "defaultValue (ArrayType c t co) = JArr []"
| "defaultValue (UnionType c t ts) = defaultValue t"

fun getChildKeys :: "ty \<Rightarrow> jsval \<Rightarrow> (key \<times> ty) list" where
  "getChildKeys (RecordType c t) (JObj kvs) = map (\<lambda>kv. (KStr (fst kv), t)) kvs"
| "getChildKeys (ObjectType c ps) v = map (\<lambda>p. (KStr (fst p), snd p)) ps"
| "getChildKeys (ArrayType c t co) (JArr xs) = map (\<lambda>i. (KNum (int i), t)) [0..<length xs]"
| "getChildKeys t v = []"

fun hasAsyncValidators :: "ty \<Rightarrow> bool" where
  "hasAsyncValidators (RecordType c t) = (asyncValidators c \<noteq> [] \<or> hasAsyncValidators t)"
| "hasAsyncValidators (ObjectType c ps) =
     (asyncValidators c \<noteq> [] \<or> (\<exists>p \<in> set ps. hasAsyncValidators (snd p)))"
| "hasAsyncValidators (ArrayType c t co) = (asyncValidators c \<noteq> [] \<or> hasAsyncValidators t)"
| "hasAsyncValidators (UnionType c t ts) =
     (asyncValidators c \<noteq> [] \<or> (\<exists>m \<in> set (t # ts). hasAsyncValidators m))"
| "hasAsyncValidators t = (asyncValidators (base t) \<noteq> [])"

text \<open>
  The schema tree as the specification speaks of it: a node and all its descendants
  (object properties, the item type of an array or record, union members).
\<close>

fun nodes :: "ty \<Rightarrow> ty list" where
  "nodes (RecordType c t) = RecordType c t # nodes t"
| "nodes (ObjectType c ps) = ObjectType c ps # concat (map (\<lambda>p. nodes (snd p)) ps)"
| "nodes (ArrayType c t co) = ArrayType c t co # nodes t"
| "nodes (UnionType c t ts) = UnionType c t ts # concat (map nodes (t # ts))"
| "nodes t = [t]"

definition async_anywhere :: "ty \<Rightarrow> bool" where
  "async_anywhere t = (\<exists>n \<in> set (nodes t). asyncValidators (base n) \<noteq> [])"

section \<open>The structural phase (base.ts: parseInput)\<close>

text \<open>a ?? b ?? d on optional flags.\<close>

definition flag :: "bool option \<Rightarrow> bool option \<Rightarrow> bool \<Rightarrow> bool" where
  "flag a b d = (case a of Some x \<Rightarrow> x | None \<Rightarrow> (case b of Some y \<Rightarrow> y | None \<Rightarrow> d))"

definition trimValue :: "string_config \<Rightarrow> parse_options \<Rightarrow> string \<Rightarrow> string" where
  "trimValue cfg opts v = (if flag (trim cfg) (string_trim opts) True then js_trim v else v)"

text \<open>check: None is the source's true, Some i the issue it has raised and returns.\<close>

fun check :: "ty \<Rightarrow> ctx \<Rightarrow> jsval \<Rightarrow> jserror + (issue option \<times> ctx)" where
  "check (StringType b cfg) c input =
     (case input of
        JStr s \<Rightarrow>
          (let allowEmpty = flag (empty cfg) (string_empty (options c)) True;
               v = trimValue cfg (options c) s
           in if \<not> allowEmpty \<and> length v = 0
              then (case core_issue c (required input) of (i, c1) \<Rightarrow> Inr (Some i, c1))
              else Inr (None, c))
      | _ \<Rightarrow> (case core_issue c (invalid_type ''string'' input) of (i, c1) \<Rightarrow> Inr (Some i, c1)))"
| "check (NumberType b co) c input =
     (case input of
        JNum n \<Rightarrow> Inr (None, c)
      | JNaN \<Rightarrow> Inr (None, c)
      | _ \<Rightarrow> (case core_issue c (invalid_type ''number'' input) of (i, c1) \<Rightarrow> Inr (Some i, c1)))"
| "check (BooleanType b co) c input =
     (case input of
        JBool x \<Rightarrow> Inr (None, c)
      | _ \<Rightarrow> (case core_issue c (invalid_type ''boolean'' input) of (i, c1) \<Rightarrow> Inr (Some i, c1)))"
| "check (EnumType b vs) c input =
     (if (case input of JStr s \<Rightarrow> s \<in> set vs | _ \<Rightarrow> False) then Inr (None, c)
      else (case core_issue c (invalid_type (''One of ['' @ join '','' vs @ '']'') input)
            of (i, c1) \<Rightarrow> Inr (Some i, c1)))"
| "check (LiteralType b l) c input =
     (if input = literal_value l then Inr (None, c)
      else (case core_issue c (invalid_type (js_String (literal_value l)) input)
            of (i, c1) \<Rightarrow> Inr (Some i, c1)))"
| "check (FileType b) c input =
     (case input of
        JFile n \<Rightarrow> Inr (None, c)
      | _ \<Rightarrow> (case core_issue c (invalid_type ''file'' input) of (i, c1) \<Rightarrow> Inr (Some i, c1)))"
| "check (RecordType b t) c input =
     (if isObject input then Inr (None, c)
      else (case core_issue c (invalid_type ''record'' input) of (i, c1) \<Rightarrow> Inr (Some i, c1)))"
| "check (ObjectType b ps) c input =
     (if isObject input then Inr (None, c)
      else (case core_issue c (invalid_type ''object'' input) of (i, c1) \<Rightarrow> Inr (Some i, c1)))"
| "check (ArrayType b t co) c input =
     (if isArray input then Inr (None, c)
      else (case core_issue c (invalid_type ''array'' input) of (i, c1) \<Rightarrow> Inr (Some i, c1)))"
| "check (UnionType b t ts) c input = Inl (Error ''Check will be invoked on shadowed type'')"

text \<open>coerce: JUndefined is the source's undefined (no usable value).\<close>

fun coerce :: "ty \<Rightarrow> ctx \<Rightarrow> jsval \<Rightarrow> jsval" where
  "coerce (StringType b cfg) c input =
     (if flag (coerce_flag cfg) (string_coerce (options c)) False \<and> \<not> isNullish input \<and>
         \<not> typeof_object input
      then JStr (js_String input) else JUndefined)"
| "coerce (NumberType b co) c input =
     (if flag co (number_coerce (options c)) False
      then (case js_Number input of JNaN \<Rightarrow> JUndefined | n \<Rightarrow> n)
      else JUndefined)"
| "coerce (BooleanType b co) c input =
     (if flag co (boolean_coerce (options c)) False \<and> \<not> isNullish input
      then JBool (js_Boolean input) else JUndefined)"
| "coerce (ArrayType b t co) c input =
     (if \<not> isNullish input \<and> co = Some True then JArr [input] else JUndefined)"
| "coerce t c input = JUndefined"

text \<open>
  clean returns the cleaned value. ObjectType.clean deletes the extra keys from the
  object it is given and returns that same object; clean_effect is the state its
  argument is left in (for every other class the argument is left as it was).
\<close>

fun clean :: "ty \<Rightarrow> ctx \<Rightarrow> jsval \<Rightarrow> jsval" where
  "clean (StringType b cfg) c (JStr s) = JStr (trimValue cfg (options c) s)"
| "clean (ObjectType b ps) c (JObj kvs) = JObj (filter (\<lambda>kv. fst kv \<in> fst ` set ps) kvs)"
| "clean t c v = v"

fun clean_effect :: "ty \<Rightarrow> ctx \<Rightarrow> jsval \<Rightarrow> jsval" where
  "clean_effect (ObjectType b ps) c (JObj kvs) = clean (ObjectType b ps) c (JObj kvs)"
| "clean_effect t c v = v"

text \<open>
  JavaScript objects and arrays are references, and parseInput works on the caller's
  input object itself until it copies it. The embedding has values, not references, so
  parseInput also returns the state the caller's input is left in, and origin records how
  the value being parsed is tied to that input: it is the input object itself (the check
  passed), a new array holding the input (ArrayType.coerce), or a value of its own.
  Inputs are taken to be trees: no object is reachable along two paths.
\<close>

datatype origin = Same | Wrapped | Own

fun coerced_origin :: "ty \<Rightarrow> origin" where
  "coerced_origin (ArrayType b t co) = Wrapped"
| "coerced_origin t = Own"

text \<open>The input after the object found under key k of the value was left as v.\<close>

fun write_back :: "origin \<Rightarrow> jsval \<Rightarrow> key \<Rightarrow> jsval \<Rightarrow> jsval" where
  "write_back Same (JObj kvs) (KStr k) v =
     (if k \<in> fst ` set kvs then JObj (obj_set kvs k v) else JObj kvs)"
| "write_back Same (JArr xs) (KNum i) v = set_child (JArr xs) (KNum i) v"
| "write_back Same input k v = input"
| "write_back Wrapped input k v = v"
| "write_back Own input k v = input"

text \<open>base.ts: tryGetCoreIssueOverride. The callback runs against the context itself.\<close>

definition on_context :: "ctx \<Rightarrow> run_state" where
  "on_context c = \<lparr>rs_ctx = c, proxies = (\<lambda>k. None), newIssues = []\<rparr>"

definition apply_core_override ::
  "ctx \<Rightarrow> jsval \<Rightarrow> string \<Rightarrow> core_override \<Rightarrow> jserror + (issue option \<times> ctx)" where
  "apply_core_override c input cd ov =
     (case ov of
        Text m \<Rightarrow> Inr (ctx_issue c (CodeMessage cd m None))
      | Callback f \<Rightarrow>
          (case run (f input) (on_context c) of
             (Inl e, s) \<Rightarrow> Inl e
           | (Inr (AsString m), s) \<Rightarrow> Inr (ctx_issue (rs_ctx s) (CodeMessage cd m None))
           | (Inr (AsIssue i), s) \<Rightarrow> Inr (Some i, rs_ctx s)))"

definition tryGetCoreIssueOverride ::
  "ctx \<Rightarrow> jsval \<Rightarrow> string \<Rightarrow> core_overrides \<Rightarrow> jserror + (issue option \<times> ctx)" where
  "tryGetCoreIssueOverride c input cd ovs =
     (if cd = ''invalid_type'' \<and> invalid_type_error ovs \<noteq> None
      then (case invalid_type_error ovs of
              Some ov \<Rightarrow> apply_core_override c input ''invalid_type'' ov
            | None \<Rightarrow> Inr (None, c))
      else if cd = ''required'' \<and> required_error ovs \<noteq> None
      then (case required_error ovs of
              Some ov \<Rightarrow> apply_core_override c input ''required'' ov
            | None \<Rightarrow> Inr (None, c))
      else Inr (None, c))"

text \<open>
  withChildPath: the callback runs under the extended path, and the path is restored
  afterwards (also when the callback throws; the context is then out of reach).
\<close>

definition withChildPath :: "ctx \<Rightarrow> key \<Rightarrow> (ctx \<Rightarrow> jserror + ('a \<times> ctx)) \<Rightarrow> jserror + ('a \<times> ctx)" where
  "withChildPath c k callback =
     (let p = cur_path c
      in case callback (setPath c (p @ [k])) of
           Inl e \<Rightarrow> Inl e
         | Inr (r, c1) \<Rightarrow> Inr (r, setPath c1 p))"

text \<open>
  What parseInput returns: the thrown error, or the parsed value, the state the caller's
  input is left in, and the context.
\<close>

type_synonym parsed = "jserror + ((jsval \<times> jsval) \<times> ctx)"

text \<open>
  The loop over getChildKeys at the end of parseInput: every child is parsed under the
  extended path and written into the (copied) parent. parse is parseInput itself.
\<close>

primrec parse_children ::
  "(ty \<Rightarrow> ctx \<Rightarrow> jsval \<Rightarrow> parsed) \<Rightarrow> origin \<Rightarrow> (key \<times> ty) list \<Rightarrow> ctx \<Rightarrow> jsval \<Rightarrow> jsval \<Rightarrow> parsed" where
  "parse_children parse og [] c parent input = Inr ((parent, input), c)"
| "parse_children parse og (kt # rest) c parent input =
     (case withChildPath c (fst kt) (\<lambda>c1. parse (snd kt) c1 (child_at parent (fst kt))) of
        Inl e \<Rightarrow> Inl e
      | Inr ((child, left), c1) \<Rightarrow>
          parse_children parse og rest c1 (set_child parent (fst kt) child)
            (write_back og input (fst kt) left))"

subsection \<open>UnionType.getShadowedType\<close>

definition discriminatedTypes :: "ty \<Rightarrow> ty list" where
  "discriminatedTypes u = filter (\<lambda>t. getLiteralKeys t \<noteq> []) (types u)"

definition getDiscriminatedMatch :: "ty \<Rightarrow> jsval \<Rightarrow> ty option" where
  "getDiscriminatedMatch u input =
     (if \<not> isObject input then None
      else find (\<lambda>t. getLiteralKeys t \<noteq> [] \<and>
                      list_all (\<lambda>kl. child_at input (KStr (fst kl)) = literal_value (snd kl))
                        (getLiteralKeys t))
             (discriminatedTypes u))"

definition typesToCheck :: "ty \<Rightarrow> jsval \<Rightarrow> ty list" where
  "typesToCheck u input =
     (case getDiscriminatedMatch u input of
        Some m \<Rightarrow> [m]
      | None \<Rightarrow> if length (types u) = length (discriminatedTypes u) then [hd (types u)] else types u)"

text \<open>
  The loop of getShadowedType: each candidate parses the input on a clone of the context;
  the first whose clone has gained no issue is returned (None when the loop runs out).
  The clone is dropped; the input object is the caller's own and keeps what the trial
  did to it.
\<close>

primrec trials ::
  "(ty \<Rightarrow> ctx \<Rightarrow> jsval \<Rightarrow> parsed) \<Rightarrow> ty list \<Rightarrow> ctx \<Rightarrow> jsval \<Rightarrow> jserror + (ty option \<times> jsval)" where
  "trials parse [] c input = Inr (None, input)"
| "trials parse (t # ts) c input =
     (case parse t (clone c) input of
        Inl e \<Rightarrow> Inl e
      | Inr ((v, left), cl) \<Rightarrow>
          if issueCount cl = issueCount c then Inr (Some t, left) else trials parse ts c left)"

text \<open>
  getShadowedType: None is the undefined of BaseType. The context handed back is the one
  the caller goes on with.
\<close>

definition getShadowedType ::
  "(ty \<Rightarrow> ctx \<Rightarrow> jsval \<Rightarrow> parsed) \<Rightarrow> ty \<Rightarrow> ctx \<Rightarrow> jsval \<Rightarrow> jserror + ((ty option \<times> jsval) \<times> ctx)" where
  "getShadowedType parse this c input =
     (case this of
        UnionType b t ts \<Rightarrow>
          (case trials parse (typesToCheck this input) c input of
             Inl e \<Rightarrow> Inl e
           | Inr (Some a, left) \<Rightarrow> Inr ((Some a, left), c)
           | Inr (None, left) \<Rightarrow> Inr ((Some (hd (typesToCheck this input)), left), c))
      | _ \<Rightarrow> Inr ((None, input), c))"

lemma parse_children_cong [fundef_cong]:
  assumes "og = og'" "kts = kts'" "c = c'" "parent = parent'" "input = input'"
    and "\<And>k t c i. (k, t) \<in> set kts' \<Longrightarrow> f t c i = g t c i"
  shows "parse_children f og kts c parent input = parse_children g og' kts' c' parent' input'"
proof -
  have "parse_children f og kts' c parent input = parse_children g og kts' c parent input"
    using assms(6)
  proof (induction kts' arbitrary: c parent input)
    case Nil
    then show ?case by simp
  next
    case (Cons kt rest)
    have h: "\<And>c i. f (snd kt) c i = g (snd kt) c i"
      using Cons.prems[of "fst kt" "snd kt"] by simp
    have "f t c i = g t c i" if "(k, t) \<in> set rest" for k t c i
      using Cons.prems[of k t c i] that by simp
    then have r: "\<And>c p i. parse_children f og rest c p i = parse_children g og rest c p i"
      by (rule Cons.IH)
    show ?case by (simp add: h r cong: sum.case_cong prod.case_cong)
  qed
  then show ?thesis using assms by simp
qed

lemma trials_cong [fundef_cong]:
  assumes "ts = ts'" "c = c'" "input = input'"
    and "\<And>t c i. t \<in> set ts' \<Longrightarrow> f t c i = g t c i"
  shows "trials f ts c input = trials g ts' c' input'"
proof -
  have "trials f ts' c input = trials g ts' c input"
    using assms(4)
  proof (induction ts' arbitrary: input)
    case Nil
    then show ?case by simp
  next
    case (Cons t rest)
    have h: "\<And>c i. f t c i = g t c i" using Cons.prems[of t] by simp
    have "f t c i = g t c i" if "t \<in> set rest" for t c i
      using Cons.prems[of t c i] that by simp
    then have r: "\<And>i. trials f rest c i = trials g rest c i"
      by (rule Cons.IH)
    show ?case by (simp add: h r cong: sum.case_cong prod.case_cong if_cong)
  qed
  then show ?thesis using assms by simp
qed

lemma find_member: "find P xs = Some x \<Longrightarrow> x \<in> set xs"
  by (induction xs) (auto split: if_splits)

lemma typesToCheck_subset:
  "t \<in> set (typesToCheck (UnionType b m ms) input) \<Longrightarrow> t \<in> set (m # ms)"
  by (auto simp: typesToCheck_def getDiscriminatedMatch_def discriminatedTypes_def
           split: option.splits if_splits dest!: find_member)

lemma getShadowedType_cong [fundef_cong]:
  assumes "this = this'" "c = c'" "input = input'"
    and "\<And>t c i. t \<in> set (types this') \<Longrightarrow> f t c i = g t c i"
  shows "getShadowedType f this c input = getShadowedType g this' c' input'"
proof (cases this')
  case (UnionType b m ms)
  have "trials f (typesToCheck this' input') c' input' = trials g (typesToCheck this' input') c' input'"
  proof (rule trials_cong)
    fix t c i
    assume "t \<in> set (typesToCheck this' input')"
    then have "t \<in> set (types this')"
      using typesToCheck_subset[of t b m ms input'] UnionType by simp
    then show "f t c i = g t c i" by (rule assms(4))
  qed simp_all
  then show ?thesis using assms(1-3) UnionType by (simp add: getShadowedType_def)
qed (simp_all add: getShadowedType_def assms(1-3))

lemma trials_member: "trials f ts c i = Inr (Some r, l) \<Longrightarrow> r \<in> set ts"
  by (induction ts arbitrary: i) (auto split: sum.splits if_splits prod.splits)

lemma getShadowedType_member:
  "getShadowedType f this c input = Inr ((Some a, left), c1) \<Longrightarrow> a \<in> set (types this)"
proof (cases this)
  case (UnionType b m ms)
  assume h: "getShadowedType f this c input = Inr ((Some a, left), c1)"
  have ne: "typesToCheck this input \<noteq> []"
    using UnionType by (auto simp: typesToCheck_def split: option.splits)
  from h UnionType have "a \<in> set (typesToCheck this input)"
    using ne by (auto simp: getShadowedType_def split: sum.splits option.splits dest: trials_member)
  then show ?thesis using typesToCheck_subset[of a b m ms input] UnionType by simp
qed (auto simp: getShadowedType_def)

lemma size_member: "t \<in> set ts \<Longrightarrow> size (t::ty) \<le> size_list size ts"
  by (induction ts) auto

lemma size_property: "(k, t) \<in> set ps \<Longrightarrow> size (t::ty) \<le> size_list (size_prod (\<lambda>x. 0) size) ps"
  by (induction ps) auto

lemma getChildKeys_size: "(k, t) \<in> set (getChildKeys a v) \<Longrightarrow> size t < size a"
  by (cases "(a, v)" rule: getChildKeys.cases) (auto dest: size_property simp: less_Suc_eq_le)

lemma types_size: "a \<in> set (types this) \<Longrightarrow> size a < size this"
  by (cases this) (auto dest: size_member simp: less_Suc_eq_le)

lemma child_smaller:
  assumes "getShadowedType f this c input = Inr ((shadow, left), c0)"
    and "(k, t) \<in> set (getChildKeys (case shadow of None \<Rightarrow> this | Some a \<Rightarrow> a) v)"
  shows "size t < size this"
proof (cases shadow)
  case None
  then show ?thesis using assms(2) by (simp add: getChildKeys_size)
next
  case (Some a)
  then have "a \<in> set (types this)" using assms(1) by (auto dest: getShadowedType_member)
  then have "size a < size this" by (rule types_size)
  moreover have "size t < size a" using assms(2) Some by (simp add: getChildKeys_size)
  ultimately show ?thesis by simp
qed

subsection \<open>parseInput\<close>

text \<open>
  The first part of parseInput: null handling, check and coerce. It yields the value
  (JUndefined when there is none), how it is tied to the input, and the pending issue.
\<close>

definition structural ::
  "ty \<Rightarrow> ty \<Rightarrow> ctx \<Rightarrow> jsval \<Rightarrow> jserror + ((jsval \<times> origin \<times> issue option) \<times> ctx)" where
  "structural this actualType c input =
     (if isNullish input then
        (let (i1, c1) = (if \<not> isOptional (base this) \<and> input = JUndefined
                         then (case core_issue c (required input) of (i, d) \<Rightarrow> (Some i, d))
                         else (None, c));
             (i2, c2) = (if \<not> isNullable (base this) \<and> input = JNull
                         then (case core_issue c1 (required input) of (i, d) \<Rightarrow> (Some i, d))
                         else (i1, c1))
         in Inr ((JUndefined, Own, i2), c2))
      else
        (case check actualType c input of
           Inl e \<Rightarrow> Inl e
         | Inr (None, c1) \<Rightarrow> Inr ((input, Same, None), c1)
         | Inr (Some res, c1) \<Rightarrow>
             (let v = coerce actualType c1 input
              in if isNullish v then Inr ((v, Own, Some res), c1)
                 else Inr ((v, coerced_origin actualType, None), removeIssues c1 [res]))))"

text \<open>
  The spread that copies an object or array is the identity on values; the copy is why
  the children written into the parent do not reach the input, while what clean did
  before the copy does.
\<close>

function parseInput :: "ty \<Rightarrow> ctx \<Rightarrow> jsval \<Rightarrow> parsed" where
  "parseInput this c input =
     (case getShadowedType parseInput this c input of
        Inl e \<Rightarrow> Inl e
      | Inr ((shadow, input1), c0) \<Rightarrow>
          (let actualType = (case shadow of None \<Rightarrow> this | Some a \<Rightarrow> a)
           in case structural this actualType c0 input1 of
                Inl e \<Rightarrow> Inl e
              | Inr ((v, og, issue), c1) \<Rightarrow>
                  (let c2 = setInput c1 input1 (issue = None);
                       isDefaultValue = isNullish v;
                       v1 = (if isDefaultValue then defaultValue actualType else clean actualType c2 v);
                       input2 = (if \<not> isDefaultValue \<and> og = Same
                                 then clean_effect actualType c2 input1 else input1)
                   in case tryGetCoreIssueOverride c2 input1
                             (case issue of None \<Rightarrow> [] | Some i \<Rightarrow> code i) (overrides (base this)) of
                        Inl e \<Rightarrow> Inl e
                      | Inr (issueOverride, c3) \<Rightarrow>
                          (let c4 = (case issueOverride of
                                       None \<Rightarrow> c3
                                     | Some ov \<Rightarrow> (case issue of None \<Rightarrow> c3 | Some i \<Rightarrow> removeIssues c3 [i]));
                               issue1 = (case issueOverride of None \<Rightarrow> issue | Some ov \<Rightarrow> Some ov);
                               c5 = (case issue1 of None \<Rightarrow> c4 | Some i \<Rightarrow> addIssues c4 [i])
                           in if isDefaultValue then Inr ((v1, input2), c5)
                              else parse_children parseInput og (getChildKeys actualType v1) c5 v1 input2))))"
  by pat_completeness auto
termination
proof (relation "measure (\<lambda>(t, c, i). size t)", goal_cases)
  case 1
  show ?case by simp
next
  case (2 this c input t c1 i)
  then show ?case by (simp add: types_size)
next
  case 3
  then show ?case by (auto dest: child_smaller)
qed

declare parseInput.simps [simp del]

section \<open>The refinement phases (base.ts: validate, validateAsync)\<close>

fun is_ContextKeyError :: "jserror \<Rightarrow> bool" where
  "is_ContextKeyError (ContextKeyError k) = True"
| "is_ContextKeyError e = False"

text \<open>
  overrideIssues. The override callback is given the context itself and the value the
  validator was given (the proxy).
\<close>

definition overrideIssues ::
  "run_state \<Rightarrow> view \<Rightarrow> issue list \<Rightarrow> (view \<Rightarrow> override_result prog) \<Rightarrow> path \<Rightarrow>
   (jserror + unit) \<times> run_state" where
  "overrideIssues s v old ov overridePath =
     (case run (ov v) (s\<lparr>rs_ctx := removeIssues (rs_ctx s) old\<rparr>) of
        (Inl e, s1) \<Rightarrow> (Inl e, s1)
      | (Inr (AsString m), s1) \<Rightarrow>
          (case create_issue (rs_ctx s1) (Some overridePath) ''custom'' m of
             (i, c) \<Rightarrow> (Inr (), s1\<lparr>rs_ctx := addIssues c [i]\<rparr>))
      | (Inr (AsIssue i), s1) \<Rightarrow> (Inr (), s1\<lparr>rs_ctx := addIssues (rs_ctx s1) [i]\<rparr>))"

text \<open>The body of the try block, for one entry; the tracking context is new for each.\<close>

definition attempt :: "path \<Rightarrow> view \<Rightarrow> ventry \<Rightarrow> run_state \<Rightarrow> (jserror + unit) \<times> run_state" where
  "attempt p v e s =
     (case run (validator e v) (s\<lparr>newIssues := []\<rparr>) of
        (Inl err, s1) \<Rightarrow> (Inl err, s1)
      | (Inr result, s1) \<Rightarrow>
          (case override e of
             Some ov \<Rightarrow> overrideIssues s1 v (getIssues result @ newIssues s1) ov p
           | None \<Rightarrow> (Inr (), s1\<lparr>rs_ctx := addIssues (rs_ctx s1) (getIssues result)\<rparr>)))"

text \<open>
  The loop over the entries: resetPath, the try block, and the catch clause, which
  rethrows the missing-key error and turns any other into an exception issue.
\<close>

primrec run_validators :: "path \<Rightarrow> view \<Rightarrow> ventry list \<Rightarrow> run_state \<Rightarrow> jserror + run_state" where
  "run_validators p v [] s = Inr s"
| "run_validators p v (e # es) s =
     (case attempt p v e (s\<lparr>rs_ctx := setPath (rs_ctx s) p\<rparr>) of
        (Inl err, s1) \<Rightarrow>
          if is_ContextKeyError err then Inl err
          else run_validators p v es (s1\<lparr>rs_ctx := snd (core_issue (rs_ctx s1) (exception err))\<rparr>)
      | (Inr u, s1) \<Rightarrow> run_validators p v es s1)"

text \<open>
  withProxy: the value is wrapped by a new getProxy (a new cache), the callback runs, and
  the path is reset at the end.
\<close>

definition withProxy ::
  "ctx \<Rightarrow> jsval \<Rightarrow> (view \<Rightarrow> run_state \<Rightarrow> jserror + run_state) \<Rightarrow> jserror + ctx" where
  "withProxy c data callback =
     (let p = cur_path c
      in case tryGetProxy (on_context c) data p of
           (proxy, s) \<Rightarrow>
             (case callback proxy s of
                Inl e \<Rightarrow> Inl e
              | Inr s1 \<Rightarrow> Inr (setPath (rs_ctx s1) p)))"

definition run_refinements :: "ventry list \<Rightarrow> ctx \<Rightarrow> jsval \<Rightarrow> jserror + ctx" where
  "run_refinements entries c v =
     withProxy c v (\<lambda>proxy s. run_validators (cur_path c) proxy entries s)"

primrec validate_children ::
  "(ty \<Rightarrow> ctx \<Rightarrow> jsval \<Rightarrow> jserror + ctx) \<Rightarrow> (key \<times> ty) list \<Rightarrow> ctx \<Rightarrow> jsval \<Rightarrow> jserror + ctx" where
  "validate_children f [] c v = Inr c"
| "validate_children f (kt # rest) c v =
     (case withChildPath c (fst kt)
             (\<lambda>c1. case f (snd kt) c1 (child_at v (fst kt)) of
                      Inl e \<Rightarrow> Inl e
                    | Inr c2 \<Rightarrow> Inr ((), c2)) of
        Inl e \<Rightarrow> Inl e
      | Inr (u, c1) \<Rightarrow> validate_children f rest c1 v)"

lemma validate_children_cong [fundef_cong]:
  assumes "kts = kts'" "c = c'" "v = v'"
    and "\<And>k t c i. (k, t) \<in> set kts' \<Longrightarrow> f t c i = g t c i"
  shows "validate_children f kts c v = validate_children g kts' c' v'"
proof -
  have "validate_children f kts' c v = validate_children g kts' c v"
    using assms(4)
  proof (induction kts' arbitrary: c)
    case Nil
    then show ?case by simp
  next
    case (Cons kt rest)
    have h: "\<And>c i. f (snd kt) c i = g (snd kt) c i"
      using Cons.prems[of "fst kt" "snd kt"] by simp
    have "f t c i = g t c i" if "(k, t) \<in> set rest" for k t c i
      using Cons.prems[of k t c i] that by simp
    then have r: "\<And>c. validate_children f rest c v = validate_children g rest c v"
      by (rule Cons.IH)
    show ?case by (simp add: h r cong: sum.case_cong prod.case_cong)
  qed
  then show ?thesis using assms by simp
qed

function validate :: "ty \<Rightarrow> ctx \<Rightarrow> jsval \<Rightarrow> jserror + ctx" where
  "validate this c v =
     (if pathHasErrors c then Inr c
      else case validate_children validate (getChildKeys this v) c v of
             Inl e \<Rightarrow> Inl e
           | Inr c1 \<Rightarrow> run_refinements (validators (base this)) c1 v)"
  by pat_completeness auto
termination
  by (relation "measure (\<lambda>(t, c, v). size t)") (auto dest: getChildKeys_size)

declare validate.simps [simp del]

function validateAsync :: "ty \<Rightarrow> ctx \<Rightarrow> jsval \<Rightarrow> jserror + ctx" where
  "validateAsync this c v =
     (if pathHasErrors c then Inr c
      else case validate_children validateAsync (getChildKeys this v) c v of
             Inl e \<Rightarrow> Inl e
           | Inr c1 \<Rightarrow> run_refinements (asyncValidators (base this)) c1 v)"
  by pat_completeness auto
termination
  by (relation "measure (\<lambda>(t, c, v). size t)") (auto dest: getChildKeys_size)

declare validateAsync.simps [simp del]

section \<open>Entry points (base.ts: safeParse, safeParseAsync, parse, parseAsync)\<close>

text \<open>
  ParseResult. The per-field input tree of a failure (getParsedInput) is a rendering of
  the context and is not modelled. An entry point also hands back the state the caller's
  input is left in.
\<close>

datatype parse_result = ParseSuccess jsval | ParseFailure "issue list"

definition makeResult :: "ctx \<Rightarrow> jsval \<Rightarrow> parse_result" where
  "makeResult c v = (if issues c = [] then ParseSuccess v else ParseFailure (issues c))"

definition getParseResult :: "ty \<Rightarrow> ctx \<Rightarrow> jsval \<Rightarrow> jserror + (parse_result \<times> jsval)" where
  "getParseResult this c input =
     (case parseInput this c input of
        Inl e \<Rightarrow> Inl e
      | Inr ((v, left), c1) \<Rightarrow>
          (case validate this c1 v of
             Inl e \<Rightarrow> Inl e
           | Inr c2 \<Rightarrow>
               if hasAsyncValidators this
               then (case validateAsync this c2 v of
                       Inl e \<Rightarrow> Inl e
                     | Inr c3 \<Rightarrow> Inr (makeResult c3 v, left))
               else Inr (makeResult c2 v, left)))"

definition safeParse :: "ty \<Rightarrow> jsval \<Rightarrow> parse_options \<Rightarrow> jserror + (parse_result \<times> jsval)" where
  "safeParse this input opts =
     (if hasAsyncValidators this
      then Inl (Error ''Asynchronous validators present, call parseAsync or safeParseAsync'')
      else getParseResult this (new_context opts) input)"

definition safeParseAsync :: "ty \<Rightarrow> jsval \<Rightarrow> parse_options \<Rightarrow> jserror + (parse_result \<times> jsval)" where
  "safeParseAsync this input opts = getParseResult this (new_context opts) input"

definition throw_failure :: "jserror + (parse_result \<times> jsval) \<Rightarrow> jserror + (jsval \<times> jsval)" where
  "throw_failure r =
     (case r of
        Inl e \<Rightarrow> Inl e
      | Inr (ParseFailure is, left) \<Rightarrow> Inl (ParseError is)
      | Inr (ParseSuccess v, left) \<Rightarrow> Inr (v, left))"

definition parse :: "ty \<Rightarrow> jsval \<Rightarrow> parse_options \<Rightarrow> jserror + (jsval \<times> jsval)" where
  "parse this input opts = throw_failure (safeParse this input opts)"

definition parseAsync :: "ty \<Rightarrow> jsval \<Rightarrow> parse_options \<Rightarrow> jserror + (jsval \<times> jsval)" where
  "parseAsync this input opts = throw_failure (safeParseAsync this input opts)"

section \<open>Configuration chains and example nodes\<close>





text \<open>The names registered in a list, in order.\<close>

definition names_of :: "ventry list \<Rightarrow> string list" where
  "names_of list = concat (map (\<lambda>e. case name e of None \<Rightarrow> [] | Some n \<Rightarrow> [n]) list)"

text \<open>Concrete options, nodes and callbacks used by the examples below.\<close>

definition default_options :: parse_options where
  "default_options =
     \<lparr>string_coerce = None, string_trim = None, string_empty = None, number_coerce = None,
      boolean_coerce = None, extras = (\<lambda>k. JUndefined)\<rparr>"

definition plain_string :: ty where
  "plain_string = StringType fresh \<lparr>trim = None, empty = None, coerce_flag = None\<rparr>"



definition person :: ty where
  "person = ObjectType fresh [(''name'', plain_string)]"



definition asks_for_missing_key :: "view \<Rightarrow> validation_result prog" where
  "asks_for_missing_key w = CallGet ''foo'' (\<lambda>x. Return (Single NotAnIssue))"









definition raises_after_reading_a_b_2 :: "string \<Rightarrow> view \<Rightarrow> validation_result prog" where
  "raises_after_reading_a_b_2 m w =
     ReadProp w ''a''
       (\<lambda>a. ReadProp a ''b''
          (\<lambda>b. ReadProp b ''2''
             (\<lambda>x. CallIssue (Message m None) (\<lambda>i. Return (Single NotAnIssue)))))"





section \<open>Properties\<close>

subsection \<open>Union construction\<close>

lemma base_with_base [simp]: "base (with_base t d) = d"
  by (cases t) auto

lemma types_with_base [simp]: "types (with_base t d) = types t"
  by (cases t) auto

lemma defaultValue_with_base [simp]: "defaultValue (with_base t d) = defaultValue t"
  by (cases t) auto

text \<open>
  C10. Constructing a union from an empty member list throws the error "UnionType options
  cannot be empty"; so a union node obtained from the public factory has the members it
  was given, at least one, and its default value is its first member's default value.
\<close>

theorem union_has_first_member:
  "z_union [] ov = Inl (Error ''UnionType options cannot be empty'') \<and>
   (z_union ts ov = Inr u \<longrightarrow>
      ts \<noteq> [] \<and> types u = ts \<and> defaultValue u = defaultValue (hd (types u)))"
  by (cases ts) (auto simp: z_union_def with_issues_def)

theorem union_has_first_member_witness:
  "z_union [plain_string, NumberType fresh None] (overrides fresh) =
     Inr (UnionType fresh plain_string [NumberType fresh None]) \<and>
   types (UnionType fresh plain_string [NumberType fresh None]) = [plain_string, NumberType fresh None] \<and>
   defaultValue (UnionType fresh plain_string [NumberType fresh None]) = JStr []"
  using union_has_first_member[of "overrides fresh" "[plain_string, NumberType fresh None]"
      "UnionType fresh plain_string [NumberType fresh None]"]
  by (simp add: z_union_def with_issues_def fresh_def plain_string_def)

subsection \<open>Asynchronous refinements and the synchronous entry point\<close>

lemma hasAsyncValidators_anywhere: "hasAsyncValidators t = async_anywhere t"
proof (induction t rule: hasAsyncValidators.induct)
  case (2 c ps)
  have "(\<exists>p\<in>set ps. hasAsyncValidators (snd p)) =
        (\<exists>p\<in>set ps. \<exists>n\<in>set (nodes (snd p)). asyncValidators (base n) \<noteq> [])"
    by (rule bex_cong[OF refl]) (simp add: 2 async_anywhere_def)
  then show ?case by (simp add: async_anywhere_def)
next
  case (4 c t ts)
  have "(\<exists>m\<in>set (t # ts). hasAsyncValidators m) =
        (\<exists>m\<in>set (t # ts). \<exists>n\<in>set (nodes m). asyncValidators (base n) \<noteq> [])"
    by (rule bex_cong[OF refl]) (simp add: 4 async_anywhere_def)
  then show ?case by (simp add: async_anywhere_def bex_Un)
qed (simp_all add: async_anywhere_def)

text \<open>
  C6. hasAsyncValidators holds of a node exactly when some node of its tree (the node
  itself, an object property, the item type of an array or record, a union member, at any
  depth) has an asynchronous refinement. safeParse throws its error, whatever the input
  and before any parsing, exactly in that case, and otherwise goes on to parse;
  safeParseAsync always goes on to parse.
\<close>

theorem safeParse_rejects_async:
  "hasAsyncValidators t = async_anywhere t \<and>
   safeParse t input opts =
     (if async_anywhere t
      then Inl (Error ''Asynchronous validators present, call parseAsync or safeParseAsync'')
      else getParseResult t (new_context opts) input) \<and>
   safeParseAsync t input opts = getParseResult t (new_context opts) input"
  by (simp add: safeParse_def safeParseAsync_def hasAsyncValidators_anywhere)

subsection \<open>Extensions\<close>




lemma named_entry [simp]: "named n (extension_entry m ps ov v) = (m = n)"
  by (auto simp: named_def extension_entry_def)

lemma names_of_append [simp]: "names_of (xs @ ys) = names_of xs @ names_of ys"
  by (simp add: names_of_def)

lemma names_of_entry [simp]: "names_of [extension_entry n ps ov v] = [n]"
  by (simp add: names_of_def extension_entry_def)

lemma names_of_plain [simp]: "names_of [plain_entry v] = []"
  by (simp add: names_of_def plain_entry_def)

























subsection \<open>Exceptions thrown by refinements\<close>

lemma cur_path_create_issue [simp]: "cur_path (snd (create_issue c p cd m)) = cur_path c"
  by (simp add: create_issue_def Let_def)











text \<open>
  An instance of the propagation: the refinement of a child asks the context for a key the
  options do not hold, and the parse call ends with that very error.
\<close>

lemma missing_key_leaves_the_parse:
  "safeParse (ObjectType fresh [(''name'', refine plain_string asks_for_missing_key)])
       (JObj [(''name'', JStr ''homer'')]) default_options =
     Inl (ContextKeyError ''foo'')"
  by code_simp

subsection \<open>When a refinement phase is skipped\<close>




subsection \<open>Message overrides of refinements\<close>


lemma addIssues_present:
  "ident i \<in> ident ` set (issues c) \<Longrightarrow> addIssues c [i] = c"
  by (simp add: addIssues_def set_add_def)




subsection \<open>Resolution of a discriminated union\<close>




subsection \<open>Path attribution inside a refinement\<close>

lemma keyOrIndex_a [simp]: "keyOrIndex ''a'' = KStr ''a''"
  by (simp add: keyOrIndex_def js_parseInt_def digit_val_def is_ws_def)

lemma keyOrIndex_b [simp]: "keyOrIndex ''b'' = KStr ''b''"
  by (simp add: keyOrIndex_def js_parseInt_def digit_val_def is_ws_def)

lemma keyOrIndex_2 [simp]: "keyOrIndex ''2'' = KNum 2"
  by (simp add: keyOrIndex_def js_parseInt_def digit_val_def is_ws_def)

lemma path_key_a [simp]: "path_key [KStr ''a''] = ''a''"
  by (simp add: path_key_def)

lemma path_key_a_b [simp]: "path_key [KStr ''a'', KStr ''b''] = ''a.b''"
  by (simp add: path_key_def)

lemma path_key_root [simp]: "path_key [] = []"
  by (simp add: path_key_def)

lemma js_get_container: "isObject v \<or> isArray v \<Longrightarrow> \<exists>x. js_get v prop = Inr x"
  by (cases v) auto

text \<open>
  C2. Let a refinement of the root node (current path []) read data.a.b[2] through the
  view it is given, where data, data.a and data.a.b are objects or arrays (as the
  expression presupposes), and then call ctx.issue with a message and no path. The issue
  it adds has the path ["a", "b", 2], the code "custom" and that message, and nothing
  else of the context changes.
\<close>

theorem issue_at_last_accessed_field:
  assumes "cur_path c = []"
    and "isObject data \<or> isArray data"
    and "js_get data ''a'' = Inr va" and "isObject va \<or> isArray va"
    and "js_get va ''b'' = Inr vb" and "isObject vb \<or> isArray vb"
  shows "run_refinements [plain_entry (raises_after_reading_a_b_2 m)] c data =
           Inr (c\<lparr>issues := issues c @
                        [\<lparr>ident = next_ident c, path = [KStr ''a'', KStr ''b'', KNum 2],
                          code = ''custom'', message = m\<rparr>],
                   next_ident := Suc (next_ident c)\<rparr>)"
proof -
  obtain x where x: "js_get vb ''2'' = Inr x"
    using js_get_container[OF assms(6)] by blast
  have d: "(\<not> isObject data \<and> \<not> isArray data) = False" using assms(2) by simp
  have a: "(\<not> isObject va \<and> \<not> isArray va) = False" using assms(4) by simp
  have b: "(\<not> isObject vb \<and> \<not> isArray vb) = False" using assms(6) by simp
  have len: "(isArray vb \<and> ''2'' = ''length'') = False" by simp
  show ?thesis
    by (cases "\<not> isObject x \<and> \<not> isArray x")
       (simp_all add: run_refinements_def withProxy_def tryGetProxy_def on_context_def
          attempt_def plain_entry_def raises_after_reading_a_b_2_def proxy_get_def
          assms(1,3,5) x d a b setPath_def Let_def new_issue_def create_issue_def
          addIssues_def set_add_def
          del: js_get.simps)
qed

theorem issue_at_last_accessed_field_witness:
  "run_refinements [plain_entry (raises_after_reading_a_b_2 ''bad'')] (new_context default_options)
     (JObj [(''a'', JObj [(''b'', JArr [JNum 1, JNum 2, JNum 3])])]) =
   Inr ((new_context default_options)
          \<lparr>issues := [\<lparr>ident = 0, path = [KStr ''a'', KStr ''b'', KNum 2], code = ''custom'',
                       message = ''bad''\<rparr>],
           next_ident := Suc 0\<rparr>)"
  using issue_at_last_accessed_field[of "new_context default_options"
      "JObj [(''a'', JObj [(''b'', JArr [JNum 1, JNum 2, JNum 3])])]"
      "JObj [(''b'', JArr [JNum 1, JNum 2, JNum 3])]" "JArr [JNum 1, JNum 2, JNum 3]" "''bad''"]
  by (simp add: new_context_def)

subsection \<open>Structural parse of a leaf node\<close>




lemma check_pass_context: "check t c input = Inr (None, c1) \<Longrightarrow> c1 = c"
  by (cases t)
     (auto simp: Let_def core_issue_def create_issue_def split: jsval.splits if_splits prod.splits)


lemma clean_inputs [simp]: "clean t (setInput c input ok) v = clean t c v"
  by (cases "(t, c, v)" rule: clean.cases) (simp_all add: setInput_def)






subsection \<open>What a parse does to the caller's input\<close>

text \<open>
  C3 fails on the code: parsing an object that has a key the schema does not declare
  leaves the caller's object without that key. ObjectType.clean deletes the extra keys
  from the value it is given, and parseInput hands it the input object itself; the copy
  is made only afterwards.
\<close>

theorem safeParse_strips_the_input:
  "safeParse person (JObj [(''name'', JStr ''homer''), (''extra'', JStr ''x'')]) default_options =
     Inr (ParseSuccess (JObj [(''name'', JStr ''homer'')]), JObj [(''name'', JStr ''homer'')])"
  by code_simp

end
